theory Spec2Isabelle
  imports Main "HOL-Library.Multiset"
begin

section \<open>The Kanban board of App.js\<close>

text \<open>
  The development embeds the \<^verbatim>\<open>KanbanBoard\<close> component of
  \<^verbatim>\<open>frontend/src/App.js\<close> (lines 487 to 554) and the API helper
  \<^verbatim>\<open>createApiCall\<close> (lines 97 to 113). JavaScript strings are HOL strings; an object
  with known fields is a record; an object used as a dictionary is an association list, in
  insertion order.
\<close>

subsection \<open>Tasks and columns\<close>

text \<open>
  A task is a JSON object of the task list. The board reads \<^verbatim>\<open>task.id\<close>,
  \<^verbatim>\<open>task.title\<close>, \<^verbatim>\<open>task.description\<close> and \<^verbatim>\<open>task.status\<close>. The status is
  a string: nothing in App.js restricts it to the four column keys.
\<close>

record task =
  task_id :: string
  title :: string
  description :: "string option"
  status :: string

text \<open>
  \<^verbatim>\<open>const columns = { backlog: {...}, todo: {...}, in_progress: {...}, done: {...} }\<close>:
  key, title and colour, in the order of \<^verbatim>\<open>Object.entries\<close>.
\<close>

definition columns :: "(string \<times> string \<times> string) list" where
  "columns =
     [(''backlog'', ''Backlog'', ''bg-gray-600''),
      (''todo'', ''To Do'', ''bg-blue-600''),
      (''in_progress'', ''In Progress'', ''bg-orange-600''),
      (''done'', ''Done'', ''bg-green-600'')]"

definition column_keys :: "string list" where
  "column_keys = map fst columns"

text \<open>
  \<^verbatim>\<open>const getTasksByStatus = (status) => tasks.filter(task => task.status === status)\<close>;
  the list \<^verbatim>\<open>tasks\<close> the closure reads is the first argument.
\<close>

definition getTasksByStatus :: "task list \<Rightarrow> string \<Rightarrow> task list" where
  "getTasksByStatus tasks s = filter (\<lambda>task. status task = s) tasks"

subsection \<open>The query cache and what the board reads from it\<close>

text \<open>
  A query key is an array of strings, here \<^verbatim>\<open>['tasks', projectId]\<close>. The data of a
  query is \<^verbatim>\<open>undefined\<close> until a fetch has succeeded; afterwards it is whatever JSON
  the server answered: an array of tasks, or \<^verbatim>\<open>null\<close>.
\<close>

type_synonym query_key = "string list"

datatype query_data = Undefined | Null | Array "task list"

datatype js_error = ReferenceError | TypeError | AxiosError string

text \<open>
  \<^verbatim>\<open>const { data: tasks = [] } = useQuery(...)\<close>: the default replaces
  \<^verbatim>\<open>undefined\<close> only. On \<^verbatim>\<open>null\<close> the call \<^verbatim>\<open>tasks.filter\<close> of
  \<^verbatim>\<open>getTasksByStatus\<close> throws a TypeError.
\<close>

fun tasks_of :: "query_data \<Rightarrow> js_error + task list" where
  "tasks_of Undefined = Inr []"
| "tasks_of Null = Inl TypeError"
| "tasks_of (Array ts) = Inr ts"

subsection \<open>Requests: the API helper\<close>

text \<open>
  \<^verbatim>\<open>user\<close> of the auth context (\<^verbatim>\<open>null\<close> when logged out) and the options object
  of a call: \<^verbatim>\<open>method\<close>, \<^verbatim>\<open>data\<close> and \<^verbatim>\<open>headers\<close>, each possibly absent
  (an absent \<^verbatim>\<open>headers\<close> spreads nothing, as the empty object does). A JSON body is an
  object of string properties.
\<close>

record user =
  uid :: string
  email :: string
  displayName :: string
  token :: string

type_synonym json_object = "(string \<times> string) list"

record api_options =
  opt_method :: "string option"
  opt_data :: "json_object option"
  opt_headers :: json_object

record axios_config =
  cfg_url :: string
  cfg_method :: string
  cfg_data :: "json_object option"
  cfg_headers :: json_object

text \<open>Object spread \<^verbatim>\<open>{...a, ...b}\<close>: a property of \<open>b\<close> replaces that of \<open>a\<close> in place.\<close>

fun set_prop :: "string \<Rightarrow> string \<Rightarrow> json_object \<Rightarrow> json_object" where
  "set_prop k v [] = [(k, v)]"
| "set_prop k v ((k', v') # ps) =
     (if k' = k then (k, v) # ps else (k', v') # set_prop k v ps)"

fun spread :: "json_object \<Rightarrow> json_object \<Rightarrow> json_object" where
  "spread a [] = a"
| "spread a ((k, v) # b) = spread (set_prop k v a) b"

text \<open>
  \<^verbatim>\<open>const API = `${BACKEND_URL}/api`\<close>, with \<^verbatim>\<open>BACKEND_URL\<close> read from the
  environment of the build.
\<close>

definition API :: "string \<Rightarrow> string" where
  "API BACKEND_URL = BACKEND_URL @ ''/api''"

text \<open>\<^verbatim>\<open>...(user?.token && { Authorization: `Bearer ${user.token}` })\<close>\<close>

definition authorization :: "user option \<Rightarrow> json_object" where
  "authorization usr =
     (case usr of
        None \<Rightarrow> []
      | Some u \<Rightarrow> if token u = [] then [] else [(''Authorization'', ''Bearer '' @ token u)])"

text \<open>
  A call of the API either throws before anything is sent (\<open>Inl\<close>) or hands a request
  configuration to axios (\<open>Inr\<close>); the answer of the server comes later, as an
  \<open>outcome\<close>.
\<close>

type_synonym api_call = "string \<Rightarrow> api_options \<Rightarrow> js_error + axios_config"

text \<open>
  \<^verbatim>\<open>createApiCall(user)\<close> (lines 97 to 113): the configuration given to axios for
  \<^verbatim>\<open>(endpoint, options)\<close>.
\<close>

definition createApiCall :: "string \<Rightarrow> user option \<Rightarrow> api_call" where
  "createApiCall BACKEND_URL usr endpoint options =
     Inr \<lparr> cfg_url = API BACKEND_URL @ endpoint,
           cfg_method = (case opt_method options of None \<Rightarrow> ''GET'' | Some m \<Rightarrow> m),
           cfg_data = opt_data options,
           cfg_headers =
             spread (spread [(''Content-Type'', ''application/json'')] (authorization usr))
               (opt_headers options) \<rparr>"

text \<open>
  The components call \<^verbatim>\<open>apiCall(endpoint, options)\<close>. App.js holds no declaration,
  parameter or import of the name \<^verbatim>\<open>apiCall\<close>: \<^verbatim>\<open>createApiCall\<close> is defined and
  never called. The embedding therefore takes the binding of \<^verbatim>\<open>apiCall\<close> as a
  parameter of the component. \<open>apiCall_unbound\<close> is the binding of the file as it stands:
  evaluating the call expression throws a ReferenceError before any request is made.
\<close>

definition apiCall_unbound :: api_call where
  "apiCall_unbound endpoint options = Inl ReferenceError"

subsection \<open>Mutations\<close>

text \<open>
  The state the board works on: the data of the query cache, the mutations whose request
  is in flight (their variables, oldest first), and the trace of what has happened,
  in order: a mutation started, a request handed to axios, a mutation settled, a query
  key invalidated.
\<close>

datatype event =
    Mutate json_object
  | Request axios_config
  | Success json_object
  | Failure json_object js_error
  | Invalidate query_key

record app_state =
  cache :: "query_key \<Rightarrow> query_data"
  pending :: "json_object list"
  trace :: "event list"

datatype outcome = Resolved | Rejected js_error

text \<open>
  The options object of \<^verbatim>\<open>useMutation\<close>. A callback that the object does not have is
  \<open>None\<close>.
\<close>

record mutation_options =
  mutationFn :: "json_object \<Rightarrow> js_error + axios_config"
  onMutate :: "(json_object \<Rightarrow> app_state \<Rightarrow> app_state) option"
  onSuccess :: "(app_state \<Rightarrow> app_state) option"
  onError :: "(js_error \<Rightarrow> app_state \<Rightarrow> app_state) option"
  onSettled :: "(app_state \<Rightarrow> app_state) option"

definition run_hook :: "(app_state \<Rightarrow> app_state) option \<Rightarrow> app_state \<Rightarrow> app_state" where
  "run_hook h st = (case h of None \<Rightarrow> st | Some f \<Rightarrow> f st)"

text \<open>
  The contract of the mutation library, as far as the board uses it: \<^verbatim>\<open>mutate(vars)\<close>
  runs \<^verbatim>\<open>onMutate\<close>, then \<^verbatim>\<open>mutationFn\<close>; when the promise settles it runs
  \<^verbatim>\<open>onSuccess\<close> or \<^verbatim>\<open>onError\<close>, then \<^verbatim>\<open>onSettled\<close>. \<^verbatim>\<open>mutate\<close> itself
  never throws: a failure is kept in the state of the mutation.
\<close>

definition settle_success :: "mutation_options \<Rightarrow> json_object \<Rightarrow> app_state \<Rightarrow> app_state" where
  "settle_success opts vars st =
     run_hook (onSettled opts)
       (run_hook (onSuccess opts) (st\<lparr>trace := trace st @ [Success vars]\<rparr>))"

definition settle_failure ::
  "mutation_options \<Rightarrow> json_object \<Rightarrow> js_error \<Rightarrow> app_state \<Rightarrow> app_state" where
  "settle_failure opts vars e st =
     run_hook (onSettled opts)
       (run_hook (map_option (\<lambda>f. f e) (onError opts))
          (st\<lparr>trace := trace st @ [Failure vars e]\<rparr>))"

definition mutate :: "mutation_options \<Rightarrow> json_object \<Rightarrow> app_state \<Rightarrow> app_state" where
  "mutate opts vars st =
     (let st1 = run_hook (map_option (\<lambda>f. f vars) (onMutate opts))
                  (st\<lparr>trace := trace st @ [Mutate vars]\<rparr>)
      in case mutationFn opts vars of
           Inl e \<Rightarrow> settle_failure opts vars e st1
         | Inr config \<Rightarrow>
             st1\<lparr>pending := pending st1 @ [vars], trace := trace st1 @ [Request config]\<rparr>)"

text \<open>The request of the \<open>n\<close>-th mutation in flight settles with \<open>out\<close>.\<close>

definition settle :: "mutation_options \<Rightarrow> nat \<Rightarrow> outcome \<Rightarrow> app_state \<Rightarrow> app_state" where
  "settle opts n out st =
     (if n < length (pending st) then
        let vars = pending st ! n;
            st1 = st\<lparr>pending := take n (pending st) @ drop (Suc n) (pending st)\<rparr>
        in case out of
             Resolved \<Rightarrow> settle_success opts vars st1
           | Rejected e \<Rightarrow> settle_failure opts vars e st1
      else st)"

text \<open>
  \<^verbatim>\<open>queryClient.invalidateQueries({ queryKey })\<close>: recorded in the trace; the refetch
  it triggers belongs to the library.
\<close>

definition invalidateQueries :: "query_key \<Rightarrow> app_state \<Rightarrow> app_state" where
  "invalidateQueries queryKey st = st\<lparr>trace := trace st @ [Invalidate queryKey]\<rparr>"

subsection \<open>The component\<close>

text \<open>A property read in a template literal: an absent one prints as \<^verbatim>\<open>undefined\<close>.\<close>

definition prop_text :: "json_object \<Rightarrow> string \<Rightarrow> string" where
  "prop_text obj k = (case map_of obj k of None \<Rightarrow> ''undefined'' | Some v \<Rightarrow> v)"

text \<open>
  \<^verbatim>\<open>useMutation({
       mutationFn: ({ taskId, ...data }) => apiCall(`/tasks/${taskId}`, { method: 'PUT', data }),
       onSuccess: () => queryClient.invalidateQueries({ queryKey: ['tasks', projectId] }) })\<close>
\<close>

definition updateTask :: "api_call \<Rightarrow> string \<Rightarrow> mutation_options" where
  "updateTask apiCall projectId =
     \<lparr> mutationFn = (\<lambda>vars.
         apiCall (''/tasks/'' @ prop_text vars ''taskId'')
           \<lparr> opt_method = Some ''PUT'',
             opt_data = Some (filter (\<lambda>(k, v). k \<noteq> ''taskId'') vars),
             opt_headers = [] \<rparr>),
       onMutate = None,
       onSuccess = Some (invalidateQueries [''tasks'', projectId]),
       onError = None,
       onSettled = None \<rparr>"

text \<open>The result of a drag gesture, as the drag-and-drop library reports it.\<close>

record droppable_location =
  droppableId :: string
  drop_index :: nat

record drop_result =
  draggableId :: string
  destination :: "droppable_location option"

text \<open>
  \<^verbatim>\<open>const onDragEnd = (result) => {
       if (!result.destination) return;
       const { draggableId, destination } = result;
       const taskId = draggableId;
       const newStatus = destination.droppableId;
       updateTask.mutate({ taskId, status: newStatus }); }\<close>
\<close>

definition onDragEnd :: "api_call \<Rightarrow> string \<Rightarrow> drop_result \<Rightarrow> app_state \<Rightarrow> app_state" where
  "onDragEnd apiCall projectId result st =
     (case destination result of
        None \<Rightarrow> st
      | Some dest \<Rightarrow>
          mutate (updateTask apiCall projectId)
            [(''taskId'', draggableId result), (''status'', droppableId dest)] st)"

text \<open>
  What the component renders: one droppable per entry of \<^verbatim>\<open>columns\<close>, holding a
  draggable card for every task of \<^verbatim>\<open>getTasksByStatus(status)\<close> with its index.
\<close>

record column_view =
  droppable :: string
  heading :: string
  colour :: string
  cards :: "(nat \<times> task) list"

definition KanbanBoard :: "app_state \<Rightarrow> string \<Rightarrow> js_error + column_view list" where
  "KanbanBoard st projectId =
     (case tasks_of (cache st [''tasks'', projectId]) of
        Inl e \<Rightarrow> Inl e
      | Inr tasks \<Rightarrow>
          Inr (map (\<lambda>(s, t, c).
                 \<lparr> droppable = s, heading = t, colour = c,
                   cards = enumerate 0 (getTasksByStatus tasks s) \<rparr>) columns))"

subsection \<open>Observations and a sample board\<close>

definition invalidations :: "app_state \<Rightarrow> query_key list" where
  "invalidations st = concat (map (\<lambda>e. case e of Invalidate k \<Rightarrow> [k] | _ \<Rightarrow> []) (trace st))"

definition requests :: "app_state \<Rightarrow> axios_config list" where
  "requests st = concat (map (\<lambda>e. case e of Request c \<Rightarrow> [c] | _ \<Rightarrow> []) (trace st))"

definition mutations_started :: "app_state \<Rightarrow> json_object list" where
  "mutations_started st = concat (map (\<lambda>e. case e of Mutate v \<Rightarrow> [v] | _ \<Rightarrow> []) (trace st))"

text \<open>The status the cached task list of a project gives to a task.\<close>

definition cached_status :: "app_state \<Rightarrow> string \<Rightarrow> string \<Rightarrow> string option" where
  "cached_status st projectId taskId =
     (case cache st [''tasks'', projectId] of
        Array ts \<Rightarrow> map_option status (find (\<lambda>t. task_id t = taskId) ts)
      | _ \<Rightarrow> None)"

definition T1 :: task where
  "T1 = \<lparr> task_id = ''T1'', title = ''Write report'', description = None, status = ''todo'' \<rparr>"

definition T2 :: task where
  "T2 = \<lparr> task_id = ''T2'', title = ''Book room'', description = Some ''for Friday'',
          status = ''done'' \<rparr>"

definition T3 :: task where
  "T3 = \<lparr> task_id = ''T3'', title = ''Old notes'', description = None,
          status = ''archived'' \<rparr>"

definition board0 :: app_state where
  "board0 = \<lparr> cache = (\<lambda>k. if k = [''tasks'', ''P1''] then Array [T1, T2] else Undefined),
              pending = [], trace = [] \<rparr>"

definition loading0 :: app_state where
  "loading0 = \<lparr> cache = (\<lambda>k. Undefined), pending = [], trace = [] \<rparr>"

definition user0 :: user where
  "user0 = \<lparr> uid = ''user_1'', email = ''a@b.c'', displayName = ''a'', token = ''mock_user_1'' \<rparr>"

definition api0 :: api_call where
  "api0 = createApiCall ''http://localhost:8001'' (Some user0)"

definition drop_T1_todo :: drop_result where
  "drop_T1_todo = \<lparr> draggableId = ''T1'',
                    destination = Some \<lparr> droppableId = ''todo'', drop_index = 0 \<rparr> \<rparr>"

definition drop_T1_done :: drop_result where
  "drop_T1_done = \<lparr> draggableId = ''T1'',
                    destination = Some \<lparr> droppableId = ''done'', drop_index = 1 \<rparr> \<rparr>"

definition drag_cancelled :: drop_result where
  "drag_cancelled = \<lparr> draggableId = ''T1'', destination = None \<rparr>"

section \<open>Properties\<close>

lemma column_keys_eq: "column_keys = [''backlog'', ''todo'', ''in_progress'', ''done'']"
  by (simp add: column_keys_def columns_def)

lemma getTasksByStatus_Nil: "getTasksByStatus [] s = []"
  by (simp add: getTasksByStatus_def)

lemma getTasksByStatus_Cons:
  "getTasksByStatus (t # ts) s =
     (if status t = s then t # getTasksByStatus ts s else getTasksByStatus ts s)"
  by (simp add: getTasksByStatus_def)

lemma set_getTasksByStatus:
  "set (getTasksByStatus tasks s) = {t \<in> set tasks. status t = s}"
  by (simp add: getTasksByStatus_def)

lemma columns_mset:
  assumes "\<forall>t \<in> set tasks. status t \<in> set column_keys"
  shows "mset (concat (map (getTasksByStatus tasks) column_keys)) = mset tasks"
  using assms
proof (induction tasks)
  case Nil
  show ?case by (simp add: column_keys_eq getTasksByStatus_Nil)
next
  case (Cons t ts)
  from Cons.prems have ih: "mset (concat (map (getTasksByStatus ts) column_keys)) = mset ts"
    using Cons.IH by simp
  from Cons.prems have "status t \<in> set column_keys" by simp
  then consider "status t = ''backlog''" | "status t = ''todo''"
    | "status t = ''in_progress''" | "status t = ''done''"
    by (auto simp: column_keys_eq)
  then show ?case
  proof cases
    case 1 with ih show ?thesis by (simp add: column_keys_eq getTasksByStatus_Cons)
  next
    case 2 with ih show ?thesis by (simp add: column_keys_eq getTasksByStatus_Cons)
  next
    case 3 with ih show ?thesis by (simp add: column_keys_eq getTasksByStatus_Cons)
  next
    case 4 with ih show ?thesis by (simp add: column_keys_eq getTasksByStatus_Cons)
  qed
qed

lemma columns_disjoint:
  "c \<noteq> c' \<Longrightarrow> set (getTasksByStatus tasks c) \<inter> set (getTasksByStatus tasks c') = {}"
  by (auto simp: set_getTasksByStatus)

lemma task_in_one_column:
  assumes "t \<in> set tasks" and "status t \<in> set column_keys"
  shows "filter (\<lambda>c. t \<in> set (getTasksByStatus tasks c)) column_keys = [status t]"
proof -
  have "filter (\<lambda>c. t \<in> set (getTasksByStatus tasks c)) column_keys
          = filter (\<lambda>c. c = status t) column_keys"
    using assms(1) by (intro filter_cong) (auto simp: set_getTasksByStatus)
  also have "\<dots> = [status t]"
  proof -
    from assms(2) consider "status t = ''backlog''" | "status t = ''todo''"
      | "status t = ''in_progress''" | "status t = ''done''"
      by (auto simp: column_keys_eq)
    then show ?thesis
      by cases (simp_all add: column_keys_eq)
  qed
  finally show ?thesis .
qed

subsection \<open>The mutation of the board, step by step\<close>

lemma run_hook_None: "run_hook None st = st"
  by (simp add: run_hook_def)

lemma run_hook_Some: "run_hook (Some f) st = f st"
  by (simp add: run_hook_def)

lemma updateTask_hooks:
  "onMutate (updateTask apiCall projectId) = None"
  "onError (updateTask apiCall projectId) = None"
  "onSettled (updateTask apiCall projectId) = None"
  "onSuccess (updateTask apiCall projectId) = Some (invalidateQueries [''tasks'', projectId])"
  by (simp_all add: updateTask_def)

lemma updateTask_mutationFn:
  "mutationFn (updateTask apiCall projectId) [(''taskId'', i), (''status'', s)] =
     apiCall (''/tasks/'' @ i)
       \<lparr> opt_method = Some ''PUT'', opt_data = Some [(''status'', s)], opt_headers = [] \<rparr>"
  by (simp add: updateTask_def prop_text_def)

lemma settle_failure_updateTask:
  "settle_failure (updateTask apiCall projectId) vars e st =
     st\<lparr>trace := trace st @ [Failure vars e]\<rparr>"
  by (simp add: settle_failure_def updateTask_hooks run_hook_None)

lemma settle_success_updateTask:
  "settle_success (updateTask apiCall projectId) vars st =
     st\<lparr>trace := trace st @ [Success vars, Invalidate [''tasks'', projectId]]\<rparr>"
  by (simp add: settle_success_def updateTask_hooks run_hook_None run_hook_Some
        invalidateQueries_def)

lemma mutate_updateTask:
  "mutate (updateTask apiCall projectId) vars st =
     (case mutationFn (updateTask apiCall projectId) vars of
        Inl e \<Rightarrow> st\<lparr>trace := trace st @ [Mutate vars, Failure vars e]\<rparr>
      | Inr config \<Rightarrow> st\<lparr>pending := pending st @ [vars],
                         trace := trace st @ [Mutate vars, Request config]\<rparr>)"
  by (simp add: mutate_def Let_def updateTask_hooks run_hook_None settle_failure_updateTask
           split: sum.splits)

text \<open>A drop on a column, when the API call hands a request to axios, and when it throws.\<close>

lemma onDragEnd_request:
  assumes "destination result = Some dest"
    and "apiCall (''/tasks/'' @ draggableId result)
           \<lparr> opt_method = Some ''PUT'', opt_data = Some [(''status'', droppableId dest)],
             opt_headers = [] \<rparr> = Inr config"
  shows "onDragEnd apiCall projectId result st =
     st\<lparr>pending := pending st @
            [[(''taskId'', draggableId result), (''status'', droppableId dest)]],
        trace := trace st @
            [Mutate [(''taskId'', draggableId result), (''status'', droppableId dest)],
             Request config]\<rparr>"
  using assms by (simp add: onDragEnd_def mutate_updateTask updateTask_mutationFn)

lemma onDragEnd_throws:
  assumes "destination result = Some dest"
    and "apiCall (''/tasks/'' @ draggableId result)
           \<lparr> opt_method = Some ''PUT'', opt_data = Some [(''status'', droppableId dest)],
             opt_headers = [] \<rparr> = Inl e"
  shows "onDragEnd apiCall projectId result st =
     st\<lparr>trace := trace st @
            [Mutate [(''taskId'', draggableId result), (''status'', droppableId dest)],
             Failure [(''taskId'', draggableId result), (''status'', droppableId dest)] e]\<rparr>"
  using assms by (simp add: onDragEnd_def mutate_updateTask updateTask_mutationFn)

lemma mutate_updateTask_cache:
  "cache (mutate (updateTask apiCall projectId) vars st) = cache st"
  by (simp add: mutate_updateTask split: sum.splits)

lemma onDragEnd_cache: "cache (onDragEnd apiCall projectId result st) = cache st"
  by (simp add: onDragEnd_def mutate_updateTask_cache split: option.splits)

lemma settle_updateTask_cache:
  "cache (settle (updateTask apiCall projectId) n out st) = cache st"
  by (simp add: settle_def Let_def settle_failure_updateTask settle_success_updateTask
           split: outcome.splits)

lemma onDragEnd_invalidations:
  "invalidations (onDragEnd apiCall projectId result st) = invalidations st"
  by (simp add: onDragEnd_def mutate_updateTask invalidations_def
           split: option.splits sum.splits)

lemma settle_Rejected_trace:
  "n < length (pending st) \<Longrightarrow>
   trace (settle (updateTask apiCall projectId) n (Rejected e) st) =
     trace st @ [Failure (pending st ! n) e]"
  by (simp add: settle_def Let_def settle_failure_updateTask)

lemma settle_Resolved_trace:
  "n < length (pending st) \<Longrightarrow>
   trace (settle (updateTask apiCall projectId) n Resolved st) =
     trace st @ [Success (pending st ! n), Invalidate [''tasks'', projectId]]"
  by (simp add: settle_def Let_def settle_success_updateTask)

lemma settle_pending:
  "n < length (pending st) \<Longrightarrow>
   pending (settle (updateTask apiCall projectId) n out st) =
     take n (pending st) @ drop (Suc n) (pending st)"
  by (simp add: settle_def Let_def settle_failure_updateTask settle_success_updateTask
           split: outcome.splits)

text \<open>
  With the helper of the file bound to \<^verbatim>\<open>apiCall\<close>, the write of a drop is the PUT of
  the update-task contract.
\<close>

lemma updateTask_createApiCall:
  "createApiCall BACKEND_URL usr (''/tasks/'' @ i)
     \<lparr> opt_method = Some ''PUT'', opt_data = Some [(''status'', s)], opt_headers = [] \<rparr> =
   Inr \<lparr> cfg_url = BACKEND_URL @ ''/api/tasks/'' @ i, cfg_method = ''PUT'',
         cfg_data = Some [(''status'', s)],
         cfg_headers = spread [(''Content-Type'', ''application/json'')] (authorization usr) \<rparr>"
  by (simp add: createApiCall_def API_def)

lemma api0_put:
  "api0 (''/tasks/'' @ i)
     \<lparr> opt_method = Some ''PUT'', opt_data = Some [(''status'', s)], opt_headers = [] \<rparr> =
   Inr \<lparr> cfg_url = ''http://localhost:8001/api/tasks/'' @ i, cfg_method = ''PUT'',
         cfg_data = Some [(''status'', s)],
         cfg_headers = [(''Content-Type'', ''application/json''),
                        (''Authorization'', ''Bearer mock_user_1'')] \<rparr>"
  by (simp add: api0_def createApiCall_def API_def authorization_def user0_def)

lemma drop_T1_todo_simps:
  "draggableId drop_T1_todo = ''T1''"
  "destination drop_T1_todo = Some \<lparr> droppableId = ''todo'', drop_index = 0 \<rparr>"
  by (simp_all add: drop_T1_todo_def)

lemma drop_T1_done_simps:
  "draggableId drop_T1_done = ''T1''"
  "destination drop_T1_done = Some \<lparr> droppableId = ''done'', drop_index = 1 \<rparr>"
  by (simp_all add: drop_T1_done_def)

lemma board0_simps:
  "pending board0 = []" "trace board0 = []"
  "cache board0 [''tasks'', ''P1''] = Array [T1, T2]"
  by (simp_all add: board0_def)

lemma cached_status_board0: "cached_status board0 ''P1'' ''T1'' = Some ''todo''"
  by (simp add: cached_status_def board0_simps T1_def)

lemma onDragEnd_api0_todo:
  "onDragEnd api0 ''P1'' drop_T1_todo board0 =
     board0\<lparr>pending := [[(''taskId'', ''T1''), (''status'', ''todo'')]],
            trace := [Mutate [(''taskId'', ''T1''), (''status'', ''todo'')],
                      Request \<lparr> cfg_url = ''http://localhost:8001/api/tasks/T1'',
                                cfg_method = ''PUT'',
                                cfg_data = Some [(''status'', ''todo'')],
                                cfg_headers = [(''Content-Type'', ''application/json''),
                                  (''Authorization'', ''Bearer mock_user_1'')] \<rparr>]\<rparr>"
  using onDragEnd_request [where result = drop_T1_todo and apiCall = api0
      and projectId = "''P1''" and st = board0, OF drop_T1_todo_simps(2) api0_put]
  by (simp add: drop_T1_todo_simps board0_simps)

lemma onDragEnd_api0_done:
  "onDragEnd api0 ''P1'' drop_T1_done board0 =
     board0\<lparr>pending := [[(''taskId'', ''T1''), (''status'', ''done'')]],
            trace := [Mutate [(''taskId'', ''T1''), (''status'', ''done'')],
                      Request \<lparr> cfg_url = ''http://localhost:8001/api/tasks/T1'',
                                cfg_method = ''PUT'',
                                cfg_data = Some [(''status'', ''done'')],
                                cfg_headers = [(''Content-Type'', ''application/json''),
                                  (''Authorization'', ''Bearer mock_user_1'')] \<rparr>]\<rparr>"
  using onDragEnd_request [where result = drop_T1_done and apiCall = api0
      and projectId = "''P1''" and st = board0, OF drop_T1_done_simps(2) api0_put]
  by (simp add: drop_T1_done_simps board0_simps)


subsection \<open>The claims\<close>

text \<open>
  C1, as stated, fails: dropping task T1, whose cached status is \<open>todo\<close>, on the
  column \<open>todo\<close> starts a mutation; with the API helper bound it sends a PUT, and the
  success of that PUT invalidates the task list of the project.
\<close>

theorem same_column_drop_counterexample:
  "cached_status board0 ''P1'' (draggableId drop_T1_todo) = Some ''todo''
   \<and> map_option droppableId (destination drop_T1_todo) = Some ''todo''
   \<and> mutations_started (onDragEnd api0 ''P1'' drop_T1_todo board0) =
        [[(''taskId'', ''T1''), (''status'', ''todo'')]]
   \<and> map cfg_method (requests (onDragEnd api0 ''P1'' drop_T1_todo board0)) = [''PUT'']
   \<and> invalidations (settle (updateTask api0 ''P1'') 0 Resolved
          (onDragEnd api0 ''P1'' drop_T1_todo board0)) = [[''tasks'', ''P1'']]
   \<and> mutations_started (onDragEnd apiCall_unbound ''P1'' drop_T1_todo board0) =
        [[(''taskId'', ''T1''), (''status'', ''todo'')]]"
  by (simp add: drop_T1_todo_simps cached_status_board0 onDragEnd_api0_todo
        mutations_started_def requests_def invalidations_def board0_simps
        settle_Resolved_trace
        onDragEnd_throws [where dest = "\<lparr> droppableId = ''todo'', drop_index = 0 \<rparr>"]
        apiCall_unbound_def)

text \<open>
  C1, amended. For every drop gesture with a destination, whatever the current status of
  the task (also when it equals the destination status), the handler starts exactly one
  mutation, with the variables \<^verbatim>\<open>{ taskId, status: destination }\<close>, and the requests
  made are exactly those the API call makes for \<^verbatim>\<open>/tasks/{taskId}\<close>, method PUT, body
  \<^verbatim>\<open>{ status }\<close>. The handler never reads the current status of the task.
\<close>

theorem onDragEnd_drop_starts_mutation:
  assumes "destination result = Some dest"
  shows "mutations_started (onDragEnd apiCall projectId result st) =
           mutations_started st @
             [[(''taskId'', draggableId result), (''status'', droppableId dest)]]
       \<and> requests (onDragEnd apiCall projectId result st) =
           requests st @
             (case apiCall (''/tasks/'' @ draggableId result)
                     \<lparr> opt_method = Some ''PUT'',
                       opt_data = Some [(''status'', droppableId dest)],
                       opt_headers = [] \<rparr> of
                Inl e \<Rightarrow> []
              | Inr config \<Rightarrow> [config])"
proof (cases "apiCall (''/tasks/'' @ draggableId result)
                \<lparr> opt_method = Some ''PUT'',
                  opt_data = Some [(''status'', droppableId dest)],
                  opt_headers = [] \<rparr>")
  case (Inl e)
  with assms show ?thesis
    by (simp add: onDragEnd_def mutate_updateTask updateTask_mutationFn
          mutations_started_def requests_def)
next
  case (Inr config)
  with assms show ?thesis
    by (simp add: onDragEnd_def mutate_updateTask updateTask_mutationFn
          mutations_started_def requests_def)
qed

theorem onDragEnd_drop_starts_mutation_witness:
  "destination drop_T1_todo = Some \<lparr> droppableId = ''todo'', drop_index = 0 \<rparr>
   \<and> cached_status board0 ''P1'' ''T1'' = Some ''todo''
   \<and> mutations_started (onDragEnd api0 ''P1'' drop_T1_todo board0) =
        [[(''taskId'', ''T1''), (''status'', ''todo'')]]
   \<and> requests (onDragEnd api0 ''P1'' drop_T1_todo board0) =
        [\<lparr> cfg_url = ''http://localhost:8001/api/tasks/T1'', cfg_method = ''PUT'',
           cfg_data = Some [(''status'', ''todo'')],
           cfg_headers = [(''Content-Type'', ''application/json''),
                          (''Authorization'', ''Bearer mock_user_1'')] \<rparr>]"
  using onDragEnd_drop_starts_mutation [OF drop_T1_todo_simps(2), of api0 "''P1''" board0]
  by (simp add: drop_T1_todo_simps cached_status_board0
        api0_put [of "''T1''" "''todo''", simplified]
        mutations_started_def requests_def board0_simps)

text \<open>
  C2, as stated, fails: after the drop of T1 (cached status \<open>todo\<close>) on the column
  \<open>done\<close> the PUT is in flight, and the cached task list still gives T1 the status
  \<open>todo\<close>, not \<open>done\<close>; so it does when the API call throws instead.
\<close>

theorem no_optimistic_patch_counterexample:
  "cached_status board0 ''P1'' ''T1'' = Some ''todo''
   \<and> pending (onDragEnd api0 ''P1'' drop_T1_done board0) =
        [[(''taskId'', ''T1''), (''status'', ''done'')]]
   \<and> map cfg_url (requests (onDragEnd api0 ''P1'' drop_T1_done board0)) =
        [''http://localhost:8001/api/tasks/T1'']
   \<and> cached_status (onDragEnd api0 ''P1'' drop_T1_done board0) ''P1'' ''T1'' = Some ''todo''
   \<and> cached_status (onDragEnd api0 ''P1'' drop_T1_done board0) ''P1'' ''T1'' \<noteq> Some ''done''
   \<and> cached_status (onDragEnd apiCall_unbound ''P1'' drop_T1_done board0) ''P1'' ''T1'' =
        Some ''todo''"
  by (simp add: cached_status_board0 onDragEnd_api0_done requests_def board0_simps
        cached_status_def T1_def onDragEnd_cache)

text \<open>
  C2, amended. For every drop gesture, no optimistic patch is applied: the handler starts
  the mutation without writing to the cache, so while the write is in flight the cached
  task list, the status it gives to any task and the rendered board are those from before
  the drop; the settlement of the write, of either outcome, does not write to the cache
  either.
\<close>

theorem onDragEnd_leaves_cache:
  "cache (onDragEnd apiCall projectId result st) = cache st
   \<and> cached_status (onDragEnd apiCall projectId result st) projectId taskId =
       cached_status st projectId taskId
   \<and> KanbanBoard (onDragEnd apiCall projectId result st) projectId = KanbanBoard st projectId
   \<and> cache (settle (updateTask apiCall projectId) n out
               (onDragEnd apiCall projectId result st)) = cache st"
  by (simp add: onDragEnd_cache settle_updateTask_cache cached_status_def KanbanBoard_def)

text \<open>
  C3, as stated, fails: when the PUT of the drop of T1 on \<open>done\<close> is rejected, the trace
  ends with the failure of the mutation and no query key has been invalidated.
\<close>

theorem failed_write_not_invalidated_counterexample:
  "trace (settle (updateTask api0 ''P1'') 0 (Rejected (AxiosError ''500''))
            (onDragEnd api0 ''P1'' drop_T1_done board0)) =
     [Mutate [(''taskId'', ''T1''), (''status'', ''done'')],
      Request \<lparr> cfg_url = ''http://localhost:8001/api/tasks/T1'', cfg_method = ''PUT'',
                cfg_data = Some [(''status'', ''done'')],
                cfg_headers = [(''Content-Type'', ''application/json''),
                               (''Authorization'', ''Bearer mock_user_1'')] \<rparr>,
      Failure [(''taskId'', ''T1''), (''status'', ''done'')] (AxiosError ''500'')]
   \<and> invalidations (settle (updateTask api0 ''P1'') 0 (Rejected (AxiosError ''500''))
            (onDragEnd api0 ''P1'' drop_T1_done board0)) = []"
  by (simp add: onDragEnd_api0_done settle_Rejected_trace invalidations_def board0_simps)

text \<open>
  C3, amended. For every task-status mutation whose remote write fails, the cached task
  list is exactly what it was before the drag (it was never patched, so the status of the
  task is its value before the drag), the mutation is recorded as failed with the error of
  the write and is no longer in flight, and no query key is invalidated: the mutation has
  no error callback, and the invalidation runs on success only.
\<close>

theorem failed_write_keeps_cache:
  assumes "destination result = Some dest"
    and "apiCall (''/tasks/'' @ draggableId result)
           \<lparr> opt_method = Some ''PUT'', opt_data = Some [(''status'', droppableId dest)],
             opt_headers = [] \<rparr> = Inr config"
    and "st' = settle (updateTask apiCall projectId) (length (pending st)) (Rejected e)
                 (onDragEnd apiCall projectId result st)"
  shows "cache st' = cache st
       \<and> cached_status st' projectId (draggableId result) =
           cached_status st projectId (draggableId result)
       \<and> trace st' = trace st @
           [Mutate [(''taskId'', draggableId result), (''status'', droppableId dest)],
            Request config,
            Failure [(''taskId'', draggableId result), (''status'', droppableId dest)] e]
       \<and> invalidations st' = invalidations st
       \<and> pending st' = pending st"
proof -
  let ?vars = "[(''taskId'', draggableId result), (''status'', droppableId dest)]"
  let ?st1 = "onDragEnd apiCall projectId result st"
  have st1: "?st1 = st\<lparr>pending := pending st @ [?vars],
                        trace := trace st @ [Mutate ?vars, Request config]\<rparr>"
    using assms(1,2) by (rule onDragEnd_request)
  have n: "length (pending st) < length (pending ?st1)"
    by (simp add: st1)
  have c: "cache st' = cache st"
    by (simp add: assms(3) settle_updateTask_cache onDragEnd_cache)
  have t: "trace st' = trace st @ [Mutate ?vars, Request config, Failure ?vars e]"
    unfolding assms(3) settle_Rejected_trace [OF n] by (simp add: st1)
  have p: "pending st' = pending st"
    unfolding assms(3) settle_pending [OF n] by (simp add: st1)
  from c t p show ?thesis
    by (simp add: cached_status_def invalidations_def)
qed

theorem failed_write_keeps_cache_witness:
  "destination drop_T1_done = Some \<lparr> droppableId = ''done'', drop_index = 1 \<rparr>
   \<and> cached_status (settle (updateTask api0 ''P1'') 0 (Rejected (AxiosError ''500''))
         (onDragEnd api0 ''P1'' drop_T1_done board0)) ''P1'' ''T1'' = Some ''todo''
   \<and> invalidations (settle (updateTask api0 ''P1'') 0 (Rejected (AxiosError ''500''))
         (onDragEnd api0 ''P1'' drop_T1_done board0)) = []
   \<and> pending (settle (updateTask api0 ''P1'') 0 (Rejected (AxiosError ''500''))
         (onDragEnd api0 ''P1'' drop_T1_done board0)) = []"
  using failed_write_keeps_cache [where result = drop_T1_done and apiCall = api0
      and projectId = "''P1''" and st = board0 and e = "AxiosError ''500''",
      OF drop_T1_done_simps(2) api0_put refl]
  by (simp add: drop_T1_done_simps board0_simps cached_status_board0 invalidations_def)

text \<open>
  C4, as stated, fails: the status of a task is a string, and a task whose status is none
  of the four column keys (here \<open>archived\<close>) is filtered into no column, so the four
  columns together are not the task list.
\<close>

theorem archived_task_counterexample:
  "status T3 \<notin> set column_keys
   \<and> concat (map (getTasksByStatus [T1, T3]) column_keys) = [T1]
   \<and> mset (concat (map (getTasksByStatus [T1, T3]) column_keys)) \<noteq> mset [T1, T3]
   \<and> filter (\<lambda>c. T3 \<in> set (getTasksByStatus [T1, T3] c)) column_keys = []"
  by (simp add: column_keys_eq getTasksByStatus_def T1_def T3_def)

text \<open>
  C4, amended. For every task list whose tasks all carry one of the four column keys
  (backlog, todo, in_progress, done) as status, the four column filters partition the
  list: the four filtered columns together hold the tasks of the list with the same
  multiplicities, two different columns share no task, and every task of the list is in
  exactly one column, the one named by its status.
\<close>

theorem getTasksByStatus_partition:
  assumes "\<forall>t \<in> set tasks. status t \<in> set column_keys"
  shows "mset (concat (map (getTasksByStatus tasks) column_keys)) = mset tasks
       \<and> (\<forall>c c'. c \<noteq> c' \<longrightarrow>
            set (getTasksByStatus tasks c) \<inter> set (getTasksByStatus tasks c') = {})
       \<and> (\<forall>t \<in> set tasks.
            filter (\<lambda>c. t \<in> set (getTasksByStatus tasks c)) column_keys = [status t])"
  using assms columns_mset columns_disjoint task_in_one_column by blast

theorem getTasksByStatus_partition_witness:
  "status T1 \<in> set column_keys \<and> status T2 \<in> set column_keys
   \<and> mset (concat (map (getTasksByStatus [T1, T2]) column_keys)) = mset [T1, T2]
   \<and> set (getTasksByStatus [T1, T2] ''todo'') \<inter> set (getTasksByStatus [T1, T2] ''done'') = {}
   \<and> filter (\<lambda>c. T1 \<in> set (getTasksByStatus [T1, T2] c)) column_keys = [''todo'']"
proof -
  have h: "\<forall>t \<in> set [T1, T2]. status t \<in> set column_keys"
    by (simp add: T1_def T2_def column_keys_eq)
  have d: "''todo'' \<noteq> ''done''" by simp
  from getTasksByStatus_partition [OF h] show ?thesis
    using h d by (simp add: T1_def)
qed

text \<open>
  C5. For every task-status mutation that settles successfully, exactly one query key is
  invalidated, the key \<^verbatim>\<open>['tasks', projectId]\<close> of the project of the board, and the
  invalidation comes after the settlement: while the write is in flight nothing has been
  invalidated, and the trace of the whole mutation is start, request, success,
  invalidation, in this order.
\<close>

theorem success_invalidates_tasks_key:
  assumes "destination result = Some dest"
    and "apiCall (''/tasks/'' @ draggableId result)
           \<lparr> opt_method = Some ''PUT'', opt_data = Some [(''status'', droppableId dest)],
             opt_headers = [] \<rparr> = Inr config"
    and "st1 = onDragEnd apiCall projectId result st"
    and "st2 = settle (updateTask apiCall projectId) (length (pending st)) Resolved st1"
  shows "invalidations st1 = invalidations st
       \<and> trace st2 = trace st @
           [Mutate [(''taskId'', draggableId result), (''status'', droppableId dest)],
            Request config,
            Success [(''taskId'', draggableId result), (''status'', droppableId dest)],
            Invalidate [''tasks'', projectId]]
       \<and> invalidations st2 = invalidations st @ [[''tasks'', projectId]]"
proof -
  let ?vars = "[(''taskId'', draggableId result), (''status'', droppableId dest)]"
  have st1: "st1 = st\<lparr>pending := pending st @ [?vars],
                       trace := trace st @ [Mutate ?vars, Request config]\<rparr>"
    unfolding assms(3) using assms(1,2) by (rule onDragEnd_request)
  have n: "length (pending st) < length (pending st1)"
    by (simp add: st1)
  have i: "invalidations st1 = invalidations st"
    by (simp add: assms(3) onDragEnd_invalidations)
  have t: "trace st2 = trace st @
             [Mutate ?vars, Request config, Success ?vars, Invalidate [''tasks'', projectId]]"
    unfolding assms(4) settle_Resolved_trace [OF n] by (simp add: st1)
  from i t show ?thesis
    by (simp add: invalidations_def)
qed

theorem success_invalidates_tasks_key_witness:
  "destination drop_T1_done = Some \<lparr> droppableId = ''done'', drop_index = 1 \<rparr>
   \<and> invalidations (onDragEnd api0 ''P1'' drop_T1_done board0) = []
   \<and> invalidations (settle (updateTask api0 ''P1'') 0 Resolved
         (onDragEnd api0 ''P1'' drop_T1_done board0)) = [[''tasks'', ''P1'']]"
  using success_invalidates_tasks_key [where result = drop_T1_done and apiCall = api0
      and projectId = "''P1''" and st = board0,
      OF drop_T1_done_simps(2) api0_put refl refl]
  by (simp add: drop_T1_done_simps board0_simps invalidations_def)

text \<open>
  C6. What the board renders is a function of the data the cache holds for the key
  \<^verbatim>\<open>['tasks', projectId]\<close>: two states that agree on this entry render the same
  columns, whatever else differs (other cache entries, mutations in flight, the trace).
\<close>

theorem KanbanBoard_reads_cache_only:
  "cache st [''tasks'', projectId] = cache st' [''tasks'', projectId] \<Longrightarrow>
   KanbanBoard st projectId = KanbanBoard st' projectId"
  by (simp add: KanbanBoard_def)

theorem KanbanBoard_reads_cache_only_witness:
  "cache board0 [''tasks'', ''P1''] =
     cache (board0\<lparr>pending := [[(''taskId'', ''T2''), (''status'', ''todo'')]],
                   trace := [Mutate [(''taskId'', ''T2''), (''status'', ''todo'')]],
                   cache := (cache board0)([''projects''] := Null)\<rparr>) [''tasks'', ''P1'']
   \<and> KanbanBoard board0 ''P1'' =
       KanbanBoard (board0\<lparr>pending := [[(''taskId'', ''T2''), (''status'', ''todo'')]],
                   trace := [Mutate [(''taskId'', ''T2''), (''status'', ''todo'')]],
                   cache := (cache board0)([''projects''] := Null)\<rparr>) ''P1''"
proof -
  have h: "cache board0 [''tasks'', ''P1''] =
     cache (board0\<lparr>pending := [[(''taskId'', ''T2''), (''status'', ''todo'')]],
                   trace := [Mutate [(''taskId'', ''T2''), (''status'', ''todo'')]],
                   cache := (cache board0)([''projects''] := Null)\<rparr>) [''tasks'', ''P1'']"
    by simp
  from KanbanBoard_reads_cache_only [OF h] h show ?thesis by simp
qed

text \<open>
  C7. A drag that ends outside every column (no destination) is a no-op: the handler
  returns the state it was given, so no mutation is started, no request is made and the
  cache is unchanged.
\<close>

theorem onDragEnd_no_destination:
  "destination result = None \<Longrightarrow> onDragEnd apiCall projectId result st = st"
  by (simp add: onDragEnd_def)

theorem onDragEnd_no_destination_witness:
  "destination drag_cancelled = None \<and> onDragEnd api0 ''P1'' drag_cancelled board0 = board0"
proof -
  have h: "destination drag_cancelled = None" by (simp add: drag_cancelled_def)
  from onDragEnd_no_destination [OF h] show ?thesis using h by simp
qed

text \<open>
  With the helper of the file bound to \<^verbatim>\<open>apiCall\<close>, a drop makes exactly the request
  of the update-task contract: PUT on \<^verbatim>\<open>/tasks/{taskId}\<close> below the API root, with
  the body \<^verbatim>\<open>{ status }\<close>.
\<close>

lemma onDragEnd_createApiCall_request:
  assumes "destination result = Some dest"
  shows "requests (onDragEnd (createApiCall BACKEND_URL usr) projectId result st) =
           requests st @
             [\<lparr> cfg_url = BACKEND_URL @ ''/api/tasks/'' @ draggableId result,
                cfg_method = ''PUT'',
                cfg_data = Some [(''status'', droppableId dest)],
                cfg_headers =
                  spread [(''Content-Type'', ''application/json'')] (authorization usr) \<rparr>]"
  using onDragEnd_request [where apiCall = "createApiCall BACKEND_URL usr",
      OF assms updateTask_createApiCall, of projectId st]
  by (simp add: requests_def)

text \<open>
  C8. In App.js as it stands the name \<^verbatim>\<open>apiCall\<close> is bound nowhere, so the mutation
  function of a drop throws a ReferenceError: the drop of T1 on \<open>done\<close> starts a mutation
  that fails at once, no request is made and none is in flight.
\<close>

theorem updateTask_apiCall_unbound:
  "trace (onDragEnd apiCall_unbound ''P1'' drop_T1_done board0) =
     [Mutate [(''taskId'', ''T1''), (''status'', ''done'')],
      Failure [(''taskId'', ''T1''), (''status'', ''done'')] ReferenceError]
   \<and> requests (onDragEnd apiCall_unbound ''P1'' drop_T1_done board0) = []
   \<and> pending (onDragEnd apiCall_unbound ''P1'' drop_T1_done board0) = []"
  by (simp add: onDragEnd_throws [where dest = "\<lparr> droppableId = ''done'', drop_index = 1 \<rparr>"]
        drop_T1_done_simps apiCall_unbound_def requests_def board0_simps)

text \<open>
  C10. While the task-list query has no data (the cache entry is \<^verbatim>\<open>undefined\<close>), the
  task list of the board is the empty list, every column filter of it is empty, and the
  board renders, without an error, its four columns with no card.
\<close>

theorem KanbanBoard_no_data:
  assumes "cache st [''tasks'', projectId] = Undefined"
  shows "tasks_of (cache st [''tasks'', projectId]) = Inr []
       \<and> (\<forall>s. getTasksByStatus [] s = [])
       \<and> KanbanBoard st projectId =
           Inr (map (\<lambda>(s, t, c). \<lparr> droppable = s, heading = t, colour = c, cards = [] \<rparr>)
                  columns)"
  using assms by (simp add: KanbanBoard_def getTasksByStatus_Nil)

theorem KanbanBoard_no_data_witness:
  "cache loading0 [''tasks'', ''P1''] = Undefined
   \<and> KanbanBoard loading0 ''P1'' =
       Inr [\<lparr> droppable = ''backlog'', heading = ''Backlog'', colour = ''bg-gray-600'',
              cards = [] \<rparr>,
            \<lparr> droppable = ''todo'', heading = ''To Do'', colour = ''bg-blue-600'',
              cards = [] \<rparr>,
            \<lparr> droppable = ''in_progress'', heading = ''In Progress'',
              colour = ''bg-orange-600'', cards = [] \<rparr>,
            \<lparr> droppable = ''done'', heading = ''Done'', colour = ''bg-green-600'',
              cards = [] \<rparr>]"
proof -
  have h: "cache loading0 [''tasks'', ''P1''] = Undefined" by (simp add: loading0_def)
  from KanbanBoard_no_data [OF h] h show ?thesis by (simp add: columns_def)
qed

end
